theory Spec2Isabelle
  imports Main "HOL-Library.Word"
begin

section \<open>The block keeper of package netsync (block_keeper.go)\<close>

text \<open>
  The block keeper talks to three collaborators whose code lives in other files: the chain
  (\<^verbatim>\<open>protocol.Chain\<close>), the peer registry (\<^verbatim>\<open>peerSet\<close>) and the switch
  (\<^verbatim>\<open>p2p.Switch\<close>). Their behaviour is a parameter of every definition below (the record
  \<open>env\<close>), their state is abstract (\<open>'c\<close> for the chain, \<open>'p\<close> for the registry), and
  every call the block keeper makes to a collaborator with an effect is appended to a log,
  so that the order and the number of these calls can be stated.

  Each definition is one call, run by one goroutine: between two calls of a collaborator
  its state is the one the previous call has left. A \<^verbatim>\<open>select\<close> takes whichever
  channel is ready, so a run is driven by the sequence of messages the \<^verbatim>\<open>select\<close> of
  \<^verbatim>\<open>BlockRequest\<close> receives: the schedule, a list of events. The retry ticker and the
  deadline timer (lines 20, 21, 129 and 130) are the events of their firing; every
  interleaving of the four channels is a schedule. A schedule that ends while the call
  still waits gives the outcome \<open>Blocked\<close>; a nil pointer dereference gives \<open>Panics\<close>.
\<close>

subsection \<open>Data\<close>

type_synonym u64 = "64 word"

text \<open>Of \<^verbatim>\<open>types.Block\<close> the block keeper reads the height and the hash only.\<close>

record Block =
  Height :: u64
  Hash :: nat
  PreviousBlockHash :: nat

record Tx =
  ID :: nat

text \<open>
  Lines 28 to 34: the five error values of the package. \<open>Collab\<close> stands for an error made
  by a collaborator, \<open>Wrapped\<close> for an error wrapped with a message by package errors.
\<close>

datatype error =
    errGetBlockTimeout
  | errPeerDropped
  | errCommAbnorm
  | errScamPeer
  | errReqBlock
  | Collab string
  | Wrapped string error

text \<open>
  Modelled from the spec: \<^verbatim>\<open>errors.Root\<close> of package github.com/bytom/errors, which is not
  under src/. The spec calls the test of line 99 a "classifying by underlying error
  identity": the root of a wrapped error is the error that was wrapped, the root of any
  other error is the error itself, and the root of nil is nil.
\<close>

fun Root_error :: "error \<Rightarrow> error" where
  "Root_error (Wrapped msg e) = Root_error e"
| "Root_error e = e"

definition Root :: "error option \<Rightarrow> error option" where
  "Root e = map_option Root_error e"

text \<open>Lines 42 to 50. Both payloads are pointers, which may be nil (\<open>None\<close>).\<close>

record pendingResponse =
  block :: "Block option"
  peerID :: string

record txsNotify =
  tx :: "Tx option"
  txPeerID :: string

text \<open>
  What one \<^verbatim>\<open>select\<close> of \<^verbatim>\<open>BlockRequest\<close> (line 133) can receive: a response from
  \<^verbatim>\<open>pendingProcessCh\<close> (sent by \<^verbatim>\<open>AddBlock\<close>, line 79, which always allocates the
  response), a tick of the retry ticker, the firing of the \<^verbatim>\<open>syncWait\<close> timer, or a
  pointer to a peer id from \<^verbatim>\<open>quitReqBlockCh\<close>.
\<close>

datatype event =
    Pending pendingResponse
  | RetryTick
  | SyncWait
  | QuitReq "string option"

text \<open>The calls to collaborators that have an effect, as the log records them.\<close>

datatype 'h call =
    RequestBlockByHeight string u64
  | DropPeer string
  | ProcessBlock "Block option"
  | AddScamPeer 'h
  | MarkTransaction string nat
  | ValidateTx Tx

text \<open>
  The collaborators. The chain and the registry return their new state with their result.
  \<open>peers_getPeer\<close> is \<^verbatim>\<open>bk.peers.Peer(peerID).getPeer()\<close>, the handle that
  \<^verbatim>\<open>AddScamPeer\<close> takes.
\<close>

record ('c, 'p, 'h) env =
  chain_Height :: "'c \<Rightarrow> u64"
  chain_ProcessBlock :: "'c \<Rightarrow> Block option \<Rightarrow> (bool \<times> error option) \<times> 'c"
  chain_ValidateTx :: "'c \<Rightarrow> Tx \<Rightarrow> (bool \<times> error option) \<times> 'c"
  peers_BestPeer :: "'p \<Rightarrow> 'h \<times> u64"
  peers_requestBlockByHeight :: "'p \<Rightarrow> string \<Rightarrow> u64 \<Rightarrow> error option \<times> 'p"
  peers_MarkTransaction :: "'p \<Rightarrow> string \<Rightarrow> nat \<Rightarrow> 'p"
  peers_DropPeer :: "'p \<Rightarrow> string \<Rightarrow> 'p"
  peers_getPeer :: "'p \<Rightarrow> string \<Rightarrow> 'h"

record ('c, 'p, 'h) world =
  chain :: 'c
  peers :: 'p
  calls :: "'h call list"

text \<open>
  The outcome of a call: it returns a value, with the state and the part of the schedule it
  did not consume; or it panics; or the schedule ends while it waits. Each outcome carries
  the state the call has reached.
\<close>

datatype ('r, 'w, 'e) outcome =
    Returns 'r 'w "'e list"
  | Panics 'w
  | Blocked 'w

fun world_of :: "('r, 'w, 'e) outcome \<Rightarrow> 'w" where
  "world_of (Returns r w evs) = w"
| "world_of (Panics w) = w"
| "world_of (Blocked w) = w"

subsection \<open>IsCaughtUp (lines 86 to 91)\<close>

definition IsCaughtUp :: "('c, 'p, 'h) env \<Rightarrow> ('c, 'p, 'h) world \<Rightarrow> bool" where
  "IsCaughtUp env w =
     (let (_, height) = peers_BestPeer env (peers w)
      in chain_Height env (chain w) < height)"

subsection \<open>BlockRequest (lines 119 to 159)\<close>

definition blockRequest ::
  "('c, 'p, 'h) env \<Rightarrow> string \<Rightarrow> u64 \<Rightarrow> ('c, 'p, 'h) world
    \<Rightarrow> error option \<times> ('c, 'p, 'h) world" where
  "blockRequest env pid height w =
     (let (err, p') = peers_requestBlockByHeight env (peers w) pid height
      in (err, w\<lparr>peers := p', calls := calls w @ [RequestBlockByHeight pid height]\<rparr>))"

text \<open>
  The loop of lines 132 to 158, one equation for each case of the \<^verbatim>\<open>select\<close>. Line 136
  compares the peer before line 140 reads \<^verbatim>\<open>block.Height\<close>, which panics on a nil block.
\<close>

fun BlockRequest_wait ::
  "('c, 'p, 'h) env \<Rightarrow> string \<Rightarrow> u64 \<Rightarrow> ('c, 'p, 'h) world \<Rightarrow> event list
    \<Rightarrow> (Block option \<times> error option, ('c, 'p, 'h) world, event) outcome" where
  "BlockRequest_wait env pid height w [] = Blocked w"
| "BlockRequest_wait env pid height w (Pending r # evs) =
     (if peerID r \<noteq> pid then BlockRequest_wait env pid height w evs
      else case block r of
        None \<Rightarrow> Panics w
      | Some b \<Rightarrow>
          if Height b \<noteq> height then BlockRequest_wait env pid height w evs
          else Returns (Some b, None) w evs)"
| "BlockRequest_wait env pid height w (RetryTick # evs) =
     (case blockRequest env pid height w of
        (Some err, w') \<Rightarrow> Returns (None, Some errReqBlock) w' evs
      | (None, w') \<Rightarrow> BlockRequest_wait env pid height w' evs)"
| "BlockRequest_wait env pid height w (SyncWait # evs) =
     Returns (None, Some errGetBlockTimeout) w evs"
| "BlockRequest_wait env pid height w (QuitReq q # evs) =
     (case q of
        None \<Rightarrow> Panics w
      | Some peerid \<Rightarrow>
          if peerid = pid then Returns (None, Some errPeerDropped) w evs
          else BlockRequest_wait env pid height w evs)"

definition BlockRequest ::
  "('c, 'p, 'h) env \<Rightarrow> string \<Rightarrow> u64 \<Rightarrow> ('c, 'p, 'h) world \<Rightarrow> event list
    \<Rightarrow> (Block option \<times> error option, ('c, 'p, 'h) world, event) outcome" where
  "BlockRequest env pid height w evs =
     (case blockRequest env pid height w of
        (Some err, w') \<Rightarrow> Returns (None, Some errReqBlock) w' evs
      | (None, w') \<Rightarrow> BlockRequest_wait env pid height w' evs)"

subsection \<open>BlockRequestWorker (lines 93 to 117)\<close>

text \<open>What one pass through the body of the loop decides: the next cursor, or the result.\<close>

datatype ctl = Next u64 | Return "error option"

text \<open>
  Lines 98 to 114. Line 107 reads \<^verbatim>\<open>block.Hash()\<close> for the log, which panics on a nil
  block; line 111 decrements an unsigned 64-bit cursor, line 114 reads the height again.
\<close>

definition BlockRequestWorker_body ::
  "('c, 'p, 'h) env \<Rightarrow> string \<Rightarrow> u64 \<Rightarrow> ('c, 'p, 'h) world \<Rightarrow> event list
    \<Rightarrow> (ctl, ('c, 'p, 'h) world, event) outcome" where
  "BlockRequestWorker_body env pid num w evs =
     (case BlockRequest env pid num w evs of
        Panics w' \<Rightarrow> Panics w'
      | Blocked w' \<Rightarrow> Blocked w'
      | Returns (blk, err) w1 evs1 \<Rightarrow>
          if Root err = Some errPeerDropped \<or> Root err = Some errGetBlockTimeout
             \<or> Root err = Some errReqBlock
          then Returns (Return (Some errCommAbnorm))
                 (w1\<lparr>peers := peers_DropPeer env (peers w1) pid,
                     calls := calls w1 @ [DropPeer pid]\<rparr>) evs1
          else
            let ((isOrphan, err'), c') = chain_ProcessBlock env (chain w1) blk;
                w2 = w1\<lparr>chain := c', calls := calls w1 @ [ProcessBlock blk]\<rparr>
            in if err' \<noteq> None then
                 (let w3 = w2\<lparr>calls := calls w2 @ [AddScamPeer (peers_getPeer env (peers w2) pid)]\<rparr>
                  in case blk of
                       None \<Rightarrow> Panics w3
                     | Some b \<Rightarrow> Returns (Return (Some errScamPeer)) w3 evs1)
               else if isOrphan then Returns (Next (num - 1)) w2 evs1
               else Returns (Next (chain_Height env (chain w2) + 1)) w2 evs1)"

subsection \<open>txsProcessWorker (lines 161 to 170)\<close>

text \<open>
  The \<^verbatim>\<open>range\<close> over \<^verbatim>\<open>txsProcessCh\<close> receives the notifications in the channel one by
  one and ends when the channel is closed and empty. The channel is the list of the
  notifications sent to it and a flag: whether it is closed after them. Line 164 reads
  \<^verbatim>\<open>tx.ID\<close>, which panics on a nil transaction.
\<close>

fun txsProcessWorker ::
  "('c, 'p, 'h) env \<Rightarrow> ('c, 'p, 'h) world \<Rightarrow> txsNotify list \<Rightarrow> bool
    \<Rightarrow> (unit, ('c, 'p, 'h) world, txsNotify) outcome" where
  "txsProcessWorker env w [] closed = (if closed then Returns () w [] else Blocked w)"
| "txsProcessWorker env w (txsResponse # rest) closed =
     (case tx txsResponse of
        None \<Rightarrow> Panics w
      | Some t \<Rightarrow>
          let w1 = w\<lparr>peers := peers_MarkTransaction env (peers w) (txPeerID txsResponse) (ID t),
                     calls := calls w @ [MarkTransaction (txPeerID txsResponse) (ID t)]\<rparr>;
              ((isOrphan, err), c') = chain_ValidateTx env (chain w1) t;
              w2 = w1\<lparr>chain := c', calls := calls w1 @ [ValidateTx t]\<rparr>;
              w3 = (if err \<noteq> None \<and> isOrphan = False
                    then w2\<lparr>calls := calls w2 @
                           [AddScamPeer (peers_getPeer env (peers w2) (txPeerID txsResponse))]\<rparr>
                    else w2)
          in txsProcessWorker env w3 rest closed)"

subsection \<open>Collaborators for the scenarios\<close>

text \<open>
  Modelled from the spec: the chain collaborator and the peer registry collaborator, whose
  code (\<^verbatim>\<open>protocol.Chain\<close>, \<^verbatim>\<open>peerSet\<close>) is not under src/. They follow section 6 and
  the glossary of the spec and serve only to run the scenarios of the spec on concrete
  inputs; the theorems below hold for every collaborator.

  The chain is the list of the blocks it has applied, the tip first, with the ids of the
  transactions it would classify as orphans and of those it would reject. A block whose
  hash is known is processed again harmlessly; a block whose parent is not known is an
  orphan; a block that extends the tip is applied; any other block is an error. The
  registry is the list of the connected peers with their heights: a request to a peer
  that is not connected cannot be dispatched.
\<close>

record stub_chain =
  applied :: "Block list"
  orphan_txs :: "nat list"
  invalid_txs :: "nat list"

definition stub_Height :: "stub_chain \<Rightarrow> u64" where
  "stub_Height c = (case applied c of [] \<Rightarrow> 0 | tip # _ \<Rightarrow> Height tip)"

definition stub_ProcessBlock ::
  "stub_chain \<Rightarrow> Block option \<Rightarrow> (bool \<times> error option) \<times> stub_chain" where
  "stub_ProcessBlock c blk =
     (case blk of
        None \<Rightarrow> ((False, Some (Collab ''nil block'')), c)
      | Some b \<Rightarrow>
          if Hash b \<in> set (map Hash (applied c)) then ((False, None), c)
          else if PreviousBlockHash b \<notin> set (map Hash (applied c)) then ((True, None), c)
          else if (case applied c of
                     [] \<Rightarrow> False
                   | tip # _ \<Rightarrow> PreviousBlockHash b = Hash tip \<and> Height b = Height tip + 1)
          then ((False, None), c\<lparr>applied := b # applied c\<rparr>)
          else ((False, Some (Collab ''invalid block'')), c))"

definition stub_ValidateTx ::
  "stub_chain \<Rightarrow> Tx \<Rightarrow> (bool \<times> error option) \<times> stub_chain" where
  "stub_ValidateTx c t =
     (if ID t \<in> set (invalid_txs c) then ((False, Some (Collab ''invalid transaction'')), c)
      else if ID t \<in> set (orphan_txs c) then ((True, Some (Collab ''orphan transaction'')), c)
      else ((False, None), c))"

type_synonym stub_peers = "(string \<times> u64) list"

definition stub_BestPeer :: "stub_peers \<Rightarrow> string \<times> u64" where
  "stub_BestPeer ps =
     fold (\<lambda>(i, h) (bi, bh). if bh < h then (i, h) else (bi, bh)) ps ([], 0)"

definition stub_requestBlockByHeight ::
  "stub_peers \<Rightarrow> string \<Rightarrow> u64 \<Rightarrow> error option \<times> stub_peers" where
  "stub_requestBlockByHeight ps pid height =
     (if pid \<in> set (map fst ps) then (None, ps) else (Some (Collab ''peer not found''), ps))"

definition stub_DropPeer :: "stub_peers \<Rightarrow> string \<Rightarrow> stub_peers" where
  "stub_DropPeer ps pid = filter (\<lambda>(i, h). i \<noteq> pid) ps"

definition collaborators :: "(stub_chain, stub_peers, string) env" where
  "collaborators =
     \<lparr>chain_Height = stub_Height,
      chain_ProcessBlock = stub_ProcessBlock,
      chain_ValidateTx = stub_ValidateTx,
      peers_BestPeer = stub_BestPeer,
      peers_requestBlockByHeight = stub_requestBlockByHeight,
      peers_MarkTransaction = (\<lambda>ps pid txid. ps),
      peers_DropPeer = stub_DropPeer,
      peers_getPeer = (\<lambda>ps pid. pid)\<rparr>"

text \<open>
  The block of height \<open>h\<close> of the local chain, with hash \<open>100 + h\<close>; a chain whose tip
  is that block; and the response that carries a block.
\<close>

definition block_at :: "nat \<Rightarrow> Block" where
  "block_at h = \<lparr>Height = of_nat h, Hash = 100 + h, PreviousBlockHash = 99 + h\<rparr>"

definition chain_at :: "nat \<Rightarrow> stub_chain" where
  "chain_at h = \<lparr>applied = [block_at h], orphan_txs = [], invalid_txs = []\<rparr>"

definition response :: "string \<Rightarrow> Block \<Rightarrow> event" where
  "response pid b = Pending \<lparr>block = Some b, peerID = pid\<rparr>"

text \<open>The block of height \<open>h\<close> of another chain, whose hashes this chain does not know.\<close>

definition foreign_block_at :: "nat \<Rightarrow> Block" where
  "foreign_block_at h = \<lparr>Height = of_nat h, Hash = 500 + h, PreviousBlockHash = 499 + h\<rparr>"

definition start_world :: "nat \<Rightarrow> stub_peers \<Rightarrow> (stub_chain, stub_peers, string) world" where
  "start_world h ps = \<lparr>chain = chain_at h, peers = ps, calls = []\<rparr>"

subsection \<open>The words of the claims\<close>

text \<open>
  A response matches a request when it comes from the peer that was asked and its block has
  the height that was asked for. It is a mismatch, in the words of the spec, when its
  origin peer does not match or its block's height does not match.
\<close>

definition matching :: "string \<Rightarrow> u64 \<Rightarrow> pendingResponse \<Rightarrow> bool" where
  "matching pid height r =
     (peerID r = pid \<and> (case block r of None \<Rightarrow> False | Some b \<Rightarrow> Height b = height))"

definition mismatching :: "string \<Rightarrow> u64 \<Rightarrow> pendingResponse \<Rightarrow> bool" where
  "mismatching pid height r =
     (peerID r \<noteq> pid \<or> (case block r of None \<Rightarrow> False | Some b \<Rightarrow> Height b \<noteq> height))"

text \<open>
  Modelled from the spec: a registry that loses the peer as soon as a request to it is
  dispatched (the "peer gone, transport error" of section 4.2), so that the first request
  is dispatched and the retry is not.
\<close>

definition flaky :: "(stub_chain, stub_peers, string) env" where
  "flaky = collaborators
     \<lparr>peers_requestBlockByHeight :=
        (\<lambda>ps pid height. (fst (stub_requestBlockByHeight ps pid height), stub_DropPeer ps pid))\<rparr>"


text \<open>
  The cursor has decreased by exactly one: read as numbers, the new cursor is one less
  than the old one.
\<close>

definition decreased_by_one :: "u64 \<Rightarrow> u64 \<Rightarrow> bool" where
  "decreased_by_one old new = (unat new + 1 = unat old)"

text \<open>A chain that has applied the blocks 9 and 10.\<close>

definition chain_10_9 :: stub_chain where
  "chain_10_9 = \<lparr>applied = [block_at 10, block_at 9], orphan_txs = [], invalid_txs = []\<rparr>"

text \<open>The calls that neither evict nor penalize a peer.\<close>

fun quiet :: "'h call \<Rightarrow> bool" where
  "quiet (DropPeer pid) = False"
| "quiet (AddScamPeer h) = False"
| "quiet c = True"

text \<open>The transactions a log has validated, in order.\<close>

fun validated :: "'h call list \<Rightarrow> Tx list" where
  "validated [] = []"
| "validated (ValidateTx t # cs) = t # validated cs"
| "validated (c # cs) = validated cs"

text \<open>
  A chain that classifies transaction 2 as an orphan and rejects transaction 3, three
  connected peers, and the notification of a transaction.
\<close>

definition tx_world :: "(stub_chain, stub_peers, string) world" where
  "tx_world =
     \<lparr>chain = \<lparr>applied = [block_at 10], orphan_txs = [2], invalid_txs = [3]\<rparr>,
      peers = [(''a'', 10), (''b'', 10), (''c'', 10)], calls = []\<rparr>"

definition notify :: "string \<Rightarrow> nat \<Rightarrow> txsNotify" where
  "notify pid i = \<lparr>tx = Some \<lparr>ID = i\<rparr>, txPeerID = pid\<rparr>"

section \<open>The loop of BlockRequestWorker (lines 97 to 116)\<close>

subsection \<open>Every pass that goes on has consumed a response\<close>

lemma BlockRequest_wait_shorter:
  "BlockRequest_wait env pid height w evs = Returns r w' evs' \<Longrightarrow> length evs' < length evs"
proof (induction evs arbitrary: w)
  case Nil
  then show ?case by simp
next
  case (Cons ev evs)
  show ?case
  proof (cases ev)
    case (Pending x)
    with Cons show ?thesis
      by (auto split: if_splits option.splits dest: less_SucI)
  next
    case RetryTick
    with Cons show ?thesis
      by (auto split: prod.splits option.splits dest: less_SucI)
  next
    case SyncWait
    with Cons show ?thesis by auto
  next
    case (QuitReq q)
    with Cons show ?thesis
      by (auto split: if_splits option.splits dest: less_SucI)
  qed
qed

lemma BlockRequest_wait_result:
  "BlockRequest_wait env pid height w evs = Returns (blk, err) w' evs' \<Longrightarrow>
     (err = None \<and> (\<exists>b. blk = Some b \<and> Height b = height)) \<or>
     (blk = None \<and> (err = Some errReqBlock \<or> err = Some errGetBlockTimeout
        \<or> err = Some errPeerDropped))"
proof (induction evs arbitrary: w)
  case Nil
  then show ?case by simp
next
  case (Cons ev evs)
  show ?case
  proof (cases ev)
    case (Pending x)
    with Cons show ?thesis
      by (cases "block x") (auto split: if_splits, metis)
  next
    case RetryTick
    with Cons show ?thesis
      by (auto split: prod.splits option.splits)
  next
    case SyncWait
    with Cons show ?thesis by auto
  next
    case (QuitReq q)
    with Cons show ?thesis
      by (auto split: if_splits option.splits)
  qed
qed

lemma BlockRequest_result:
  "BlockRequest env pid height w evs = Returns (blk, err) w' evs' \<Longrightarrow>
     (err = None \<and> (\<exists>b. blk = Some b \<and> Height b = height)) \<or>
     (blk = None \<and> (err = Some errReqBlock \<or> err = Some errGetBlockTimeout
        \<or> err = Some errPeerDropped))"
  unfolding BlockRequest_def
  by (auto split: prod.splits option.splits dest: BlockRequest_wait_result)

lemma BlockRequest_ok_shorter:
  "BlockRequest env pid height w evs = Returns (blk, None) w' evs' \<Longrightarrow>
     length evs' < length evs"
  unfolding BlockRequest_def
  by (auto split: prod.splits option.splits dest: BlockRequest_wait_shorter)

lemma BlockRequestWorker_body_Next_shorter:
  assumes "BlockRequestWorker_body env pid num w evs = Returns (Next num') w' evs'"
  shows "length evs' < length evs"
proof (cases "BlockRequest env pid num w evs")
  case (Returns r w1 evs1)
  obtain blk err where r: "r = (blk, err)" by (cases r)
  from BlockRequest_result [OF Returns [unfolded r]]
  have "err = None \<or> Root err = Some errReqBlock \<or> Root err = Some errGetBlockTimeout
      \<or> Root err = Some errPeerDropped"
    by (auto simp: Root_def)
  with assms Returns r have "err = None" and "evs' = evs1"
    by (auto simp: BlockRequestWorker_body_def Let_def
        split: if_splits prod.splits option.splits)
  with Returns r BlockRequest_ok_shorter show ?thesis by blast
next
  case (Panics w1)
  with assms show ?thesis by (simp add: BlockRequestWorker_body_def)
next
  case (Blocked w1)
  with assms show ?thesis by (simp add: BlockRequestWorker_body_def)
qed

text \<open>
  The loop of lines 97 to 116. Every pass that goes on has received a block, so the
  schedule gets shorter and the recursion ends.
\<close>

function BlockRequestWorker_loop ::
  "('c, 'p, 'h) env \<Rightarrow> string \<Rightarrow> u64 \<Rightarrow> u64 \<Rightarrow> ('c, 'p, 'h) world \<Rightarrow> event list
    \<Rightarrow> (error option, ('c, 'p, 'h) world, event) outcome" where
  "BlockRequestWorker_loop env pid maxPeerHeight num w evs =
     (if num \<le> maxPeerHeight then
        (case BlockRequestWorker_body env pid num w evs of
           Returns c w' evs' \<Rightarrow>
             (case c of
                Next num' \<Rightarrow> BlockRequestWorker_loop env pid maxPeerHeight num' w' evs'
              | Return err \<Rightarrow> Returns err w' evs')
         | Panics w' \<Rightarrow> Panics w'
         | Blocked w' \<Rightarrow> Blocked w')
      else Returns None w evs)"
  by pat_completeness auto
termination
  by (relation "measure (\<lambda>(env, pid, maxPeerHeight, num, w, evs). length evs)")
    (auto dest: BlockRequestWorker_body_Next_shorter)

definition BlockRequestWorker ::
  "('c, 'p, 'h) env \<Rightarrow> string \<Rightarrow> u64 \<Rightarrow> ('c, 'p, 'h) world \<Rightarrow> event list
    \<Rightarrow> (error option, ('c, 'p, 'h) world, event) outcome" where
  "BlockRequestWorker env pid maxPeerHeight w evs =
     (let chainHeight = chain_Height env (chain w);
          num = chainHeight + 1
      in BlockRequestWorker_loop env pid maxPeerHeight num w evs)"

text \<open>
  The hypothesis of claim C8, as a function of the run: from the cursor \<open>num\<close> on, every
  \<open>BlockRequest\<close> returns a block with a nil error and every \<open>ProcessBlock\<close> returns
  no error and no orphan classification, until the cursor exceeds \<open>maxPeerHeight\<close>.
\<close>

function all_fetches_succeed ::
  "('c, 'p, 'h) env \<Rightarrow> string \<Rightarrow> u64 \<Rightarrow> u64 \<Rightarrow> ('c, 'p, 'h) world \<Rightarrow> event list \<Rightarrow> bool" where
  "all_fetches_succeed env pid maxPeerHeight num w evs =
     (if num \<le> maxPeerHeight then
        (case BlockRequest env pid num w evs of
           Returns r w1 evs1 \<Rightarrow>
             if fst r \<noteq> None \<and> snd r = None then
               (let res = chain_ProcessBlock env (chain w1) (fst r)
                in if fst res = (False, None) then
                     all_fetches_succeed env pid maxPeerHeight (chain_Height env (snd res) + 1)
                       (w1\<lparr>chain := snd res, calls := calls w1 @ [ProcessBlock (fst r)]\<rparr>) evs1
                   else False)
             else False
         | Panics w1 \<Rightarrow> False
         | Blocked w1 \<Rightarrow> False)
      else True)"
  by pat_completeness auto
termination
proof (relation "measure (\<lambda>(env, pid, maxPeerHeight, num, w, evs). length evs)", goal_cases)
  case 1
  show ?case by simp
next
  case (2 env pid maxPeerHeight num w evs r w1 evs1 res)
  then have "BlockRequest env pid num w evs = Returns (fst r, None) w1 evs1"
    by (cases r) simp
  then show ?case by (auto dest: BlockRequest_ok_shorter)
qed

declare all_fetches_succeed.simps [simp del]

declare BlockRequestWorker_loop.simps [simp del]

section \<open>Lemmas\<close>

subsection \<open>The definitions of the scenarios, for evaluation\<close>

lemmas scenario_defs =
  collaborators_def start_world_def chain_at_def block_at_def foreign_block_at_def
  response_def stub_Height_def stub_ProcessBlock_def stub_ValidateTx_def stub_BestPeer_def
  stub_requestBlockByHeight_def stub_DropPeer_def blockRequest_def

subsection \<open>BlockRequest\<close>

lemma blockRequest_fst:
  "fst (blockRequest env pid height w) = fst (peers_requestBlockByHeight env (peers w) pid height)"
  by (simp add: blockRequest_def split: prod.splits)

lemma blockRequest_snd:
  "snd (blockRequest env pid height w) =
     w\<lparr>peers := snd (peers_requestBlockByHeight env (peers w) pid height),
       calls := calls w @ [RequestBlockByHeight pid height]\<rparr>"
  by (simp add: blockRequest_def split: prod.splits)

lemma BlockRequest_unfold:
  "BlockRequest env pid height w evs =
     (if fst (blockRequest env pid height w) \<noteq> None
      then Returns (None, Some errReqBlock) (snd (blockRequest env pid height w)) evs
      else BlockRequest_wait env pid height (snd (blockRequest env pid height w)) evs)"
  by (auto simp: BlockRequest_def split: prod.splits option.splits)

lemma BlockRequest_wait_RetryTick:
  "BlockRequest_wait env pid height w (RetryTick # evs) =
     (if fst (blockRequest env pid height w) \<noteq> None
      then Returns (None, Some errReqBlock) (snd (blockRequest env pid height w)) evs
      else BlockRequest_wait env pid height (snd (blockRequest env pid height w)) evs)"
  by (auto split: prod.splits option.splits)

lemma BlockRequest_wait_append:
  "BlockRequest_wait env pid height w pre = Blocked w' \<Longrightarrow>
   BlockRequest_wait env pid height w (pre @ evs) = BlockRequest_wait env pid height w' evs"
proof (induction pre arbitrary: w)
  case Nil
  then show ?case by simp
next
  case (Cons ev pre)
  show ?case
  proof (cases ev)
    case (Pending r)
    with Cons show ?thesis by (auto split: if_splits option.splits)
  next
    case RetryTick
    with Cons show ?thesis by (auto split: prod.splits option.splits)
  next
    case SyncWait
    with Cons show ?thesis by simp
  next
    case (QuitReq q)
    with Cons show ?thesis by (auto split: if_splits option.splits)
  qed
qed

lemma BlockRequest_append:
  "BlockRequest env pid height w pre = Blocked w' \<Longrightarrow>
   BlockRequest env pid height w (pre @ evs) = BlockRequest_wait env pid height w' evs"
  by (auto simp: BlockRequest_unfold split: if_splits dest: BlockRequest_wait_append)

lemma BlockRequest_wait_skips:
  "\<forall>r\<in>set pre. mismatching pid height r \<Longrightarrow>
   BlockRequest_wait env pid height w (map Pending pre @ evs) =
   BlockRequest_wait env pid height w evs"
  by (induction pre) (auto simp: mismatching_def split: option.splits)

lemma BlockRequest_wait_match:
  "matching pid height m \<Longrightarrow>
   BlockRequest_wait env pid height w (Pending m # evs) = Returns (block m, None) w evs"
  by (auto simp: matching_def split: option.splits)

lemma single_match_split:
  assumes "filter P rs = [m]"
  shows "rs = takeWhile (\<lambda>r. \<not> P r) rs @ m # tl (dropWhile (\<lambda>r. \<not> P r) rs) \<and> P m"
  using assms
proof (induction rs)
  case Nil
  then show ?case by simp
next
  case (Cons r rs)
  then show ?case by (auto split: if_splits)
qed

lemma BlockRequest_wait_effect:
  "\<exists>k. calls (world_of (BlockRequest_wait env pid height w evs)) =
          calls w @ replicate k (RequestBlockByHeight pid height) \<and>
        chain (world_of (BlockRequest_wait env pid height w evs)) = chain w"
proof (induction evs arbitrary: w)
  case Nil
  then show ?case by simp
next
  case (Cons ev evs)
  show ?case
  proof (cases ev)
    case (Pending r)
    with Cons [of w] show ?thesis
      by (auto split: option.splits intro: exI [of _ 0])
  next
    case RetryTick
    show ?thesis
    proof (cases "fst (blockRequest env pid height w)")
      case None
      from Cons [of "snd (blockRequest env pid height w)"] obtain k where
        "calls (world_of (BlockRequest_wait env pid height (snd (blockRequest env pid height w)) evs))
           = calls w @ replicate (Suc k) (RequestBlockByHeight pid height)"
        "chain (world_of (BlockRequest_wait env pid height (snd (blockRequest env pid height w)) evs))
           = chain w"
        by (auto simp: blockRequest_snd)
      with None RetryTick have
        "calls (world_of (BlockRequest_wait env pid height w (ev # evs)))
           = calls w @ replicate (Suc k) (RequestBlockByHeight pid height) \<and>
         chain (world_of (BlockRequest_wait env pid height w (ev # evs))) = chain w"
        by (simp only: BlockRequest_wait_RetryTick) simp
      then show ?thesis by (rule exI)
    next
      case (Some e)
      with RetryTick show ?thesis
        by (simp only: BlockRequest_wait_RetryTick)
          (auto simp: blockRequest_snd intro: exI [of _ 1])
    qed
  next
    case SyncWait
    then show ?thesis by (auto intro: exI [of _ 0])
  next
    case (QuitReq q)
    with Cons [of w] show ?thesis
      by (auto split: option.splits intro: exI [of _ 0])
  qed
qed

lemma BlockRequest_effect:
  "\<exists>k. calls (world_of (BlockRequest env pid height w evs)) =
          calls w @ replicate (Suc k) (RequestBlockByHeight pid height) \<and>
        chain (world_of (BlockRequest env pid height w evs)) = chain w"
proof (cases "fst (blockRequest env pid height w)")
  case None
  from BlockRequest_wait_effect [of env pid height "snd (blockRequest env pid height w)" evs]
  obtain k where
    "calls (world_of (BlockRequest_wait env pid height (snd (blockRequest env pid height w)) evs))
       = calls w @ replicate (Suc k) (RequestBlockByHeight pid height)"
    "chain (world_of (BlockRequest_wait env pid height (snd (blockRequest env pid height w)) evs))
       = chain w"
    by (auto simp: blockRequest_snd)
  with None have
    "calls (world_of (BlockRequest env pid height w evs))
       = calls w @ replicate (Suc k) (RequestBlockByHeight pid height) \<and>
     chain (world_of (BlockRequest env pid height w evs)) = chain w"
    by (simp add: BlockRequest_unfold)
  then show ?thesis by (rule exI)
next
  case (Some e)
  then have
    "calls (world_of (BlockRequest env pid height w evs))
       = calls w @ replicate (Suc 0) (RequestBlockByHeight pid height) \<and>
     chain (world_of (BlockRequest env pid height w evs)) = chain w"
    by (simp add: BlockRequest_unfold blockRequest_snd)
  then show ?thesis by (rule exI)
qed

lemma BlockRequestWorker_body_failed:
  assumes "BlockRequest env pid num w evs = Returns (blk, Some e) w1 evs1"
  shows "BlockRequestWorker_body env pid num w evs =
           Returns (Return (Some errCommAbnorm))
             (w1\<lparr>peers := peers_DropPeer env (peers w1) pid,
                 calls := calls w1 @ [DropPeer pid]\<rparr>) evs1"
  using BlockRequest_result [OF assms] assms
  by (auto simp: BlockRequestWorker_body_def Root_def)

lemma BlockRequestWorker_body_processed:
  assumes "BlockRequest env pid num w evs = Returns (Some b, None) w1 evs1"
    and "chain_ProcessBlock env (chain w1) (Some b) = ((isOrphan, err), c')"
  shows "BlockRequestWorker_body env pid num w evs =
           (if err \<noteq> None then
              Returns (Return (Some errScamPeer))
                (w1\<lparr>chain := c',
                    calls := calls w1 @ [ProcessBlock (Some b),
                      AddScamPeer (peers_getPeer env (peers w1) pid)]\<rparr>) evs1
            else if isOrphan then
              Returns (Next (num - 1))
                (w1\<lparr>chain := c', calls := calls w1 @ [ProcessBlock (Some b)]\<rparr>) evs1
            else
              Returns (Next (chain_Height env c' + 1))
                (w1\<lparr>chain := c', calls := calls w1 @ [ProcessBlock (Some b)]\<rparr>) evs1)"
  using assms by (auto simp: BlockRequestWorker_body_def Root_def)

lemma BlockRequestWorker_loop_exit:
  "\<not> num \<le> maxPeerHeight \<Longrightarrow>
   BlockRequestWorker_loop env pid maxPeerHeight num w evs = Returns None w evs"
  by (simp add: BlockRequestWorker_loop.simps)

lemma BlockRequestWorker_loop_Next:
  "num \<le> maxPeerHeight \<Longrightarrow>
   BlockRequestWorker_body env pid num w evs = Returns (Next num') w' evs' \<Longrightarrow>
   BlockRequestWorker_loop env pid maxPeerHeight num w evs =
     BlockRequestWorker_loop env pid maxPeerHeight num' w' evs'"
  by (subst BlockRequestWorker_loop.simps) simp

lemma BlockRequestWorker_loop_Return:
  "num \<le> maxPeerHeight \<Longrightarrow>
   BlockRequestWorker_body env pid num w evs = Returns (Return err) w' evs' \<Longrightarrow>
   BlockRequestWorker_loop env pid maxPeerHeight num w evs = Returns err w' evs'"
  by (subst BlockRequestWorker_loop.simps) simp

subsection \<open>One pass of the loop of BlockRequestWorker\<close>

lemma BlockRequestWorker_body_calls:
  "\<exists>k rest.
     calls (world_of (BlockRequestWorker_body env pid num w evs)) =
       calls w @ replicate (Suc k) (RequestBlockByHeight pid num) @ rest \<and>
     (rest = [] \<or> rest = [DropPeer pid] \<or>
      (\<exists>b w1 evs1. BlockRequest env pid num w evs = Returns (Some b, None) w1 evs1 \<and>
         (rest = [ProcessBlock (Some b)] \<or>
          rest = [ProcessBlock (Some b), AddScamPeer (peers_getPeer env (peers w1) pid)])))"
proof -
  from BlockRequest_effect [of env pid num w evs] obtain k where
    k: "calls (world_of (BlockRequest env pid num w evs)) =
          calls w @ replicate (Suc k) (RequestBlockByHeight pid num)"
    by blast
  show ?thesis
  proof (cases "BlockRequest env pid num w evs")
    case (Returns r w1 evs1)
    obtain blk err where r: "r = (blk, err)" by (cases r)
    from BlockRequest_result [OF Returns [unfolded r]]
    consider b where "err = None" "blk = Some b" | e where "err = Some e" by auto
    then show ?thesis
    proof cases
      case 1
      obtain isOrphan perr c' where
        pb: "chain_ProcessBlock env (chain w1) (Some b) = ((isOrphan, perr), c')"
        by (metis surj_pair)
      from Returns r 1 have br: "BlockRequest env pid num w evs = Returns (Some b, None) w1 evs1"
        by simp
      from k br have "calls w1 = calls w @ replicate (Suc k) (RequestBlockByHeight pid num)"
        by simp
      with BlockRequestWorker_body_processed [OF br pb] br show ?thesis
        by (intro exI [of _ k]) (auto simp del: replicate_Suc)
    next
      case 2
      with Returns r have br: "BlockRequest env pid num w evs = Returns (blk, Some e) w1 evs1"
        by simp
      from k br have "calls w1 = calls w @ replicate (Suc k) (RequestBlockByHeight pid num)"
        by simp
      with BlockRequestWorker_body_failed [OF br] show ?thesis
        by (intro exI [of _ k]) (auto simp del: replicate_Suc)
    qed
  next
    case (Panics w1)
    with k show ?thesis
      by (intro exI [of _ k]) (simp add: BlockRequestWorker_body_def del: replicate_Suc)
  next
    case (Blocked w1)
    with k show ?thesis
      by (intro exI [of _ k]) (simp add: BlockRequestWorker_body_def del: replicate_Suc)
  qed
qed

lemma BlockRequestWorker_body_cases:
  assumes "BlockRequestWorker_body env pid num w evs = Returns c w' evs'"
  shows "(\<exists>blk e w1. BlockRequest env pid num w evs = Returns (blk, Some e) w1 evs' \<and>
            c = Return (Some errCommAbnorm) \<and>
            w' = w1\<lparr>peers := peers_DropPeer env (peers w1) pid,
                     calls := calls w1 @ [DropPeer pid]\<rparr>) \<or>
         (\<exists>b w1 isOrphan err c'.
            BlockRequest env pid num w evs = Returns (Some b, None) w1 evs' \<and>
            chain_ProcessBlock env (chain w1) (Some b) = ((isOrphan, err), c') \<and>
            (if err \<noteq> None then
               c = Return (Some errScamPeer) \<and>
               w' = w1\<lparr>chain := c',
                        calls := calls w1 @ [ProcessBlock (Some b),
                          AddScamPeer (peers_getPeer env (peers w1) pid)]\<rparr>
             else
               c = Next (if isOrphan then num - 1 else chain_Height env c' + 1) \<and>
               w' = w1\<lparr>chain := c', calls := calls w1 @ [ProcessBlock (Some b)]\<rparr>))"
proof (cases "BlockRequest env pid num w evs")
  case (Returns r w1 evs1)
  obtain blk err where r: "r = (blk, err)" by (cases r)
  from BlockRequest_result [OF Returns [unfolded r]]
  consider b where "err = None" "blk = Some b" | e where "err = Some e" by auto
  then show ?thesis
  proof cases
    case 1
    obtain isOrphan perr c' where
      pb: "chain_ProcessBlock env (chain w1) (Some b) = ((isOrphan, perr), c')"
      by (metis surj_pair)
    from Returns r 1 have br: "BlockRequest env pid num w evs = Returns (Some b, None) w1 evs1"
      by simp
    from BlockRequestWorker_body_processed [OF br pb] assms br pb show ?thesis
      by (auto split: if_splits)
  next
    case 2
    with Returns r have br: "BlockRequest env pid num w evs = Returns (blk, Some e) w1 evs1"
      by simp
    from BlockRequestWorker_body_failed [OF br] assms br show ?thesis by auto
  qed
next
  case (Panics w1)
  with assms show ?thesis by (simp add: BlockRequestWorker_body_def)
next
  case (Blocked w1)
  with assms show ?thesis by (simp add: BlockRequestWorker_body_def)
qed

subsection \<open>The decrement of the cursor\<close>

lemma decreased_by_one_minus_1: "num \<noteq> 0 \<Longrightarrow> decreased_by_one num (num - 1)"
  by (simp add: decreased_by_one_def unat_minus_one unat_gt_0 Suc_leI)


subsection \<open>The whole loop\<close>

lemma all_fetches_succeed_caught_up:
  "all_fetches_succeed env pid maxPeerHeight num w evs \<Longrightarrow>
   \<exists>w' evs'. BlockRequestWorker_loop env pid maxPeerHeight num w evs = Returns None w' evs' \<and>
     (num \<le> maxPeerHeight \<longrightarrow> \<not> chain_Height env (chain w') + 1 \<le> maxPeerHeight)"
proof (induction env pid maxPeerHeight num w evs rule: all_fetches_succeed.induct)
  case (1 env pid maxPeerHeight num w evs)
  show ?case
  proof (cases "num \<le> maxPeerHeight")
    case False
    then show ?thesis by (simp add: BlockRequestWorker_loop_exit)
  next
    case True
    with "1.prems" have step:
      "case BlockRequest env pid num w evs of
           Returns r w1 evs1 \<Rightarrow>
             if fst r \<noteq> None \<and> snd r = None then
               (let res = chain_ProcessBlock env (chain w1) (fst r)
                in if fst res = (False, None) then
                     all_fetches_succeed env pid maxPeerHeight (chain_Height env (snd res) + 1)
                       (w1\<lparr>chain := snd res, calls := calls w1 @ [ProcessBlock (fst r)]\<rparr>) evs1
                   else False)
             else False
         | Panics w1 \<Rightarrow> False
         | Blocked w1 \<Rightarrow> False"
      by (subst (asm) all_fetches_succeed.simps) simp
    then obtain r w1 evs1 where ret: "BlockRequest env pid num w evs = Returns r w1 evs1"
      by (cases "BlockRequest env pid num w evs") auto
    with step obtain b where r: "r = (Some b, None)"
      by (cases r) (auto split: if_splits)
    define res where "res = chain_ProcessBlock env (chain w1) (Some b)"
    from step ret r have ok: "fst res = (False, None)"
      and rest: "all_fetches_succeed env pid maxPeerHeight (chain_Height env (snd res) + 1)
               (w1\<lparr>chain := snd res, calls := calls w1 @ [ProcessBlock (Some b)]\<rparr>) evs1"
      by (auto simp: res_def Let_def split: if_splits)
    define c' where "c' = snd res"
    let ?w2 = "w1\<lparr>chain := c', calls := calls w1 @ [ProcessBlock (Some b)]\<rparr>"
    from ok have pb: "chain_ProcessBlock env (chain w1) (Some b) = ((False, None), c')"
      by (simp add: res_def c'_def prod_eq_iff)
    from ret r have br: "BlockRequest env pid num w evs = Returns (Some b, None) w1 evs1"
      by simp
    from "1.IH" [OF True ret _ refl, of ] r ok rest
    obtain w' evs' where
      next_loop: "BlockRequestWorker_loop env pid maxPeerHeight (chain_Height env c' + 1) ?w2 evs1 =
       Returns None w' evs'"
      and later: "chain_Height env c' + 1 \<le> maxPeerHeight \<longrightarrow>
         \<not> chain_Height env (chain w') + 1 \<le> maxPeerHeight"
      by (auto simp: res_def c'_def)
    have caught_up: "\<not> chain_Height env (chain w') + 1 \<le> maxPeerHeight"
    proof (cases "chain_Height env c' + 1 \<le> maxPeerHeight")
      case True
      with later show ?thesis by simp
    next
      case False
      with next_loop have "w' = ?w2" by (simp add: BlockRequestWorker_loop_exit)
      with False show ?thesis by simp
    qed
    from BlockRequestWorker_body_processed [OF br pb]
    have "BlockRequestWorker_body env pid num w evs =
        Returns (Next (chain_Height env c' + 1)) ?w2 evs1"
      by simp
    from BlockRequestWorker_loop_Next [OF True this] next_loop
    have "BlockRequestWorker_loop env pid maxPeerHeight num w evs = Returns None w' evs'"
      by simp
    with caught_up show ?thesis by blast
  qed
qed

lemma BlockRequestWorker_loop_calls:
  "\<exists>new. calls (world_of (BlockRequestWorker_loop env pid maxPeerHeight num w evs)) =
            calls w @ new \<and>
          (\<forall>x. ProcessBlock x \<in> set new \<longrightarrow> x \<noteq> None)"
proof (induction env pid maxPeerHeight num w evs rule: BlockRequestWorker_loop.induct)
  case (1 env pid maxPeerHeight num w evs)
  show ?case
  proof (cases "num \<le> maxPeerHeight")
    case False
    then show ?thesis by (simp add: BlockRequestWorker_loop_exit)
  next
    case True
    from BlockRequestWorker_body_calls [of env pid num w evs] obtain new where
      new: "calls (world_of (BlockRequestWorker_body env pid num w evs)) = calls w @ new"
        "\<forall>x. ProcessBlock x \<in> set new \<longrightarrow> x \<noteq> None"
      by (auto simp del: replicate_Suc)
    show ?thesis
    proof (cases "BlockRequestWorker_body env pid num w evs")
      case (Returns c w' evs')
      show ?thesis
      proof (cases c)
        case (Next num')
        from "1.IH" [OF True Returns Next] obtain new' where
          "calls (world_of (BlockRequestWorker_loop env pid maxPeerHeight num' w' evs')) =
             calls w' @ new'"
          "\<forall>x. ProcessBlock x \<in> set new' \<longrightarrow> x \<noteq> None"
          by blast
        with new Returns Next BlockRequestWorker_loop_Next [OF True, of env pid w evs num' w' evs']
        have "calls (world_of (BlockRequestWorker_loop env pid maxPeerHeight num w evs)) =
                calls w @ (new @ new') \<and>
              (\<forall>x. ProcessBlock x \<in> set (new @ new') \<longrightarrow> x \<noteq> None)"
          by auto
        then show ?thesis by (rule exI)
      next
        case (Return err)
        with new Returns BlockRequestWorker_loop_Return [OF True, of env pid w evs err w' evs']
        have "calls (world_of (BlockRequestWorker_loop env pid maxPeerHeight num w evs)) =
                calls w @ new \<and> (\<forall>x. ProcessBlock x \<in> set new \<longrightarrow> x \<noteq> None)"
          by auto
        then show ?thesis by (rule exI)
      qed
    next
      case (Panics w')
      with new True
      have "calls (world_of (BlockRequestWorker_loop env pid maxPeerHeight num w evs)) =
              calls w @ new \<and> (\<forall>x. ProcessBlock x \<in> set new \<longrightarrow> x \<noteq> None)"
        by (subst BlockRequestWorker_loop.simps) auto
      then show ?thesis by (rule exI)
    next
      case (Blocked w')
      with new True
      have "calls (world_of (BlockRequestWorker_loop env pid maxPeerHeight num w evs)) =
              calls w @ new \<and> (\<forall>x. ProcessBlock x \<in> set new \<longrightarrow> x \<noteq> None)"
        by (subst BlockRequestWorker_loop.simps) auto
      then show ?thesis by (rule exI)
    qed
  qed
qed

lemma BlockRequestWorker_loop_nil_quiet:
  "BlockRequestWorker_loop env pid maxPeerHeight num w evs = Returns None w' evs' \<Longrightarrow>
   \<exists>new. calls w' = calls w @ new \<and> list_all quiet new"
proof (induction env pid maxPeerHeight num w evs rule: BlockRequestWorker_loop.induct)
  case (1 env pid maxPeerHeight num w evs)
  show ?case
  proof (cases "num \<le> maxPeerHeight")
    case False
    with "1.prems" show ?thesis by (simp add: BlockRequestWorker_loop_exit)
  next
    case True
    show ?thesis
    proof (cases "BlockRequestWorker_body env pid num w evs")
      case (Returns c w1 evs1)
      show ?thesis
      proof (cases c)
        case (Next num')
        from BlockRequestWorker_body_cases [OF Returns] Next obtain b w0 where
          br: "BlockRequest env pid num w evs = Returns (Some b, None) w0 evs1"
          and w1: "calls w1 = calls w0 @ [ProcessBlock (Some b)]"
          by (auto split: if_splits)
        from BlockRequest_effect [of env pid num w evs] br obtain k where
          "calls w0 = calls w @ replicate (Suc k) (RequestBlockByHeight pid num)"
          by auto
        with w1 have first:
          "calls w1 = calls w @ (replicate (Suc k) (RequestBlockByHeight pid num) @ [ProcessBlock (Some b)])"
          by simp
        from "1.prems" Returns Next BlockRequestWorker_loop_Next [OF True, of env pid w evs num' w1 evs1]
        have "BlockRequestWorker_loop env pid maxPeerHeight num' w1 evs1 = Returns None w' evs'"
          by simp
        from "1.IH" [OF True Returns Next this] obtain new' where
          "calls w' = calls w1 @ new'" "list_all quiet new'"
          by blast
        with first have "calls w' =
            calls w @ ((replicate (Suc k) (RequestBlockByHeight pid num) @ [ProcessBlock (Some b)]) @ new')
          \<and> list_all quiet ((replicate (Suc k) (RequestBlockByHeight pid num) @ [ProcessBlock (Some b)]) @ new')"
          by (auto simp: list_all_iff)
        then show ?thesis by (rule exI)
      next
        case (Return err)
        with "1.prems" Returns BlockRequestWorker_loop_Return [OF True, of env pid w evs err w1 evs1]
        have "err = None" by simp
        with BlockRequestWorker_body_cases [OF Returns] Return show ?thesis
          by (auto split: if_splits)
      qed
    next
      case (Panics w1)
      with "1.prems" True show ?thesis
        by (subst (asm) BlockRequestWorker_loop.simps) simp
    next
      case (Blocked w1)
      with "1.prems" True show ?thesis
        by (subst (asm) BlockRequestWorker_loop.simps) simp
    qed
  qed
qed

lemma max_u64: "(- 1 :: u64) = 18446744073709551615"
  by simp

lemmas run_defs =
  BlockRequestWorker_def BlockRequestWorker_loop.simps BlockRequestWorker_body_def
  BlockRequest_def Root_def scenario_defs

subsection \<open>txsProcessWorker\<close>

lemma validated_append: "validated (cs @ ds) = validated cs @ validated ds"
  by (induction cs rule: validated.induct) simp_all

lemma txsProcessWorker_step:
  assumes "tx n = Some t"
    and "chain_ValidateTx env (chain w) t = ((isOrphan, err), c')"
  shows "txsProcessWorker env w (n # rest) closed =
           txsProcessWorker env
             (w\<lparr>peers := peers_MarkTransaction env (peers w) (txPeerID n) (ID t),
                chain := c',
                calls := calls w @ [MarkTransaction (txPeerID n) (ID t), ValidateTx t] @
                  (if err \<noteq> None \<and> \<not> isOrphan
                   then [AddScamPeer (peers_getPeer env
                           (peers_MarkTransaction env (peers w) (txPeerID n) (ID t)) (txPeerID n))]
                   else [])\<rparr>) rest closed"
  using assms by (simp add: Let_def)

lemma txsProcessWorker_all:
  "\<forall>n\<in>set ns. tx n \<noteq> None \<Longrightarrow>
   \<exists>w'. txsProcessWorker env w ns closed = (if closed then Returns () w' [] else Blocked w') \<and>
        validated (calls w') = validated (calls w) @ map (\<lambda>n. the (tx n)) ns"
proof (induction ns arbitrary: w)
  case Nil
  then show ?case by simp
next
  case (Cons n ns)
  then obtain t where t: "tx n = Some t" by auto
  obtain isOrphan err c' where v: "chain_ValidateTx env (chain w) t = ((isOrphan, err), c')"
    by (metis surj_pair)
  let ?w1 = "w\<lparr>peers := peers_MarkTransaction env (peers w) (txPeerID n) (ID t),
                chain := c',
                calls := calls w @ [MarkTransaction (txPeerID n) (ID t), ValidateTx t] @
                  (if err \<noteq> None \<and> \<not> isOrphan
                   then [AddScamPeer (peers_getPeer env
                           (peers_MarkTransaction env (peers w) (txPeerID n) (ID t)) (txPeerID n))]
                   else [])\<rparr>"
  from Cons.prems have "\<forall>n\<in>set ns. tx n \<noteq> None" by simp
  from Cons.IH [OF this, of ?w1] obtain w' where
    w': "txsProcessWorker env ?w1 ns closed = (if closed then Returns () w' [] else Blocked w')"
      "validated (calls w') = validated (calls ?w1) @ map (\<lambda>n. the (tx n)) ns"
    by blast
  have "validated (calls ?w1) = validated (calls w) @ [t]"
    by (simp add: validated_append)
  with w' t have "txsProcessWorker env w (n # ns) closed =
        (if closed then Returns () w' [] else Blocked w') \<and>
      validated (calls w') = validated (calls w) @ map (\<lambda>n. the (tx n)) (n # ns)"
    by (simp only: txsProcessWorker_step [OF t v]) simp
  then show ?case by (rule exI)
qed

section \<open>IsCaughtUp\<close>

text \<open>
  C1. The claim: \<open>IsCaughtUp\<close> returns true if and only if the local chain height is
  greater than or equal to the height of the best known peer. Line 90 returns
  \<^verbatim>\<open>bk.chain.Height() < height\<close>, the opposite: with the local chain at height 10
  and the best peer at height 12 the node is behind and \<open>IsCaughtUp\<close> is true; with the
  chain at height 12 and the best peer at height 10 it is false; with both at height 12
  it is false.
\<close>

theorem IsCaughtUp_says_behind:
  "IsCaughtUp collaborators (start_world 10 [(''peer'', 12)]) = True \<and>
   IsCaughtUp collaborators (start_world 12 [(''peer'', 10)]) = False \<and>
   IsCaughtUp collaborators (start_world 12 [(''peer'', 12)]) = False \<and>
   IsCaughtUp env w = (\<not> snd (peers_BestPeer env (peers w)) \<le> chain_Height env (chain w))"
  by (auto simp: IsCaughtUp_def scenario_defs split: prod.splits)

section \<open>BlockRequest\<close>

text \<open>
  C3. The dispatch of the request succeeds and the \<^verbatim>\<open>select\<close> receives the responses
  \<open>rs\<close>, in which exactly one response \<open>m\<close> comes from \<open>pid\<close> with a block of height
  \<open>height\<close> and every other one is a mismatch (wrong peer, or a block of another height),
  in any order. Then \<open>BlockRequest\<close> returns the block of \<open>m\<close> with a nil error: it has
  passed over every response before \<open>m\<close> without failing, and it has not consumed the
  responses after \<open>m\<close>. The same holds when retry ticks and cancellations for other
  peers arrive between the responses: after any schedule \<open>pre\<close> that leaves the call
  waiting, the response \<open>m\<close> makes it return the block of \<open>m\<close>.
\<close>

theorem BlockRequest_returns_the_match:
  assumes dispatch: "fst (peers_requestBlockByHeight env (peers w) pid height) = None"
    and one: "filter (matching pid height) rs = [m]"
    and others: "\<forall>r\<in>set rs. matching pid height r \<or> mismatching pid height r"
  shows "BlockRequest env pid height w (map Pending rs) =
           Returns (block m, None) (snd (blockRequest env pid height w))
             (map Pending (tl (dropWhile (\<lambda>r. \<not> matching pid height r) rs))) \<and>
         (\<exists>b. block m = Some b \<and> Height b = height) \<and> peerID m = pid \<and>
         (BlockRequest env pid height w pre = Blocked w' \<longrightarrow>
            BlockRequest env pid height w (pre @ Pending m # rest) =
              Returns (block m, None) w' rest)"
proof -
  let ?pre = "takeWhile (\<lambda>r. \<not> matching pid height r) rs"
  let ?post = "tl (dropWhile (\<lambda>r. \<not> matching pid height r) rs)"
  from single_match_split [OF one]
  have split: "rs = ?pre @ m # ?post" and m: "matching pid height m" by simp_all
  have "\<forall>r\<in>set ?pre. mismatching pid height r"
    using others by (metis set_takeWhileD)
  then have skip: "BlockRequest_wait env pid height w' (map Pending ?pre @ Pending m # map Pending ?post)
      = BlockRequest_wait env pid height w' (Pending m # map Pending ?post)" for w'
    by (rule BlockRequest_wait_skips)
  have eq: "map Pending rs = map Pending ?pre @ Pending m # map Pending ?post"
    by (subst split) simp
  have "BlockRequest_wait env pid height w' (map Pending rs) =
      Returns (block m, None) w' (map Pending ?post)" for w'
  proof -
    have "BlockRequest_wait env pid height w' (map Pending rs) =
        BlockRequest_wait env pid height w' (map Pending ?pre @ Pending m # map Pending ?post)"
      by (simp only: eq [symmetric])
    also have "\<dots> = BlockRequest_wait env pid height w' (Pending m # map Pending ?post)"
      by (rule skip)
    also have "\<dots> = Returns (block m, None) w' (map Pending ?post)"
      by (rule BlockRequest_wait_match [OF m])
    finally show ?thesis .
  qed
  with dispatch have "BlockRequest env pid height w (map Pending rs) =
      Returns (block m, None) (snd (blockRequest env pid height w)) (map Pending ?post)"
    by (simp add: BlockRequest_unfold blockRequest_fst)
  moreover have "BlockRequest env pid height w (pre @ Pending m # rest) =
      Returns (block m, None) w' rest"
    if "BlockRequest env pid height w pre = Blocked w'"
    by (simp only: BlockRequest_append [OF that] BlockRequest_wait_match [OF m])
  ultimately show ?thesis using m by (auto simp: matching_def split: option.splits)
qed

theorem BlockRequest_returns_the_match_witness:
  "BlockRequest collaborators ''peer'' 11 (start_world 10 [(''peer'', 13)])
     [response ''peer'' (block_at 12), response ''other'' (block_at 11),
      Pending \<lparr>block = None, peerID = ''other''\<rparr>,
      response ''peer'' (block_at 11), response ''peer'' (block_at 13)] =
   Returns (Some (block_at 11), None)
     \<lparr>chain = chain_at 10, peers = [(''peer'', 13)],
      calls = [RequestBlockByHeight ''peer'' 11]\<rparr>
     [response ''peer'' (block_at 13)] \<and>
   BlockRequest collaborators ''peer'' 11 (start_world 10 [(''peer'', 13)])
     [response ''other'' (block_at 11), RetryTick, QuitReq (Some ''other''),
      response ''peer'' (block_at 11), SyncWait] =
   Returns (Some (block_at 11), None)
     \<lparr>chain = chain_at 10, peers = [(''peer'', 13)],
      calls = [RequestBlockByHeight ''peer'' 11, RequestBlockByHeight ''peer'' 11]\<rparr>
     [SyncWait]"
  using BlockRequest_returns_the_match [of collaborators "start_world 10 [(''peer'', 13)]"
      "''peer''" 11
      "[\<lparr>block = Some (block_at 12), peerID = ''peer''\<rparr>,
        \<lparr>block = Some (block_at 11), peerID = ''other''\<rparr>,
        \<lparr>block = None, peerID = ''other''\<rparr>,
        \<lparr>block = Some (block_at 11), peerID = ''peer''\<rparr>,
        \<lparr>block = Some (block_at 13), peerID = ''peer''\<rparr>]"
      "\<lparr>block = Some (block_at 11), peerID = ''peer''\<rparr>"
      "[response ''other'' (block_at 11), RetryTick, QuitReq (Some ''other'')]"
      "\<lparr>chain = chain_at 10, peers = [(''peer'', 13)],
        calls = [RequestBlockByHeight ''peer'' 11, RequestBlockByHeight ''peer'' 11]\<rparr>"
      "[SyncWait]"]
  by (simp add: scenario_defs BlockRequest_def matching_def mismatching_def)

text \<open>
  C4. The errors of \<open>BlockRequest\<close>. When the first dispatch fails it returns
  \<open>errReqBlock\<close> at once. Let \<open>pre\<close> be any schedule that leaves the call waiting (the
  request is dispatched and \<open>pre\<close> holds no matching response and nothing that ends the
  call). Then a retry tick whose dispatch fails gives \<open>errReqBlock\<close>, the firing of the
  deadline timer gives \<open>errGetBlockTimeout\<close>, a cancellation that carries \<open>pid\<close> gives
  \<open>errPeerDropped\<close>, and a cancellation that carries another peer id leaves the call
  waiting, in the same state: the call goes on as if the signal had not been sent.
\<close>

theorem BlockRequest_failures:
  "(fst (peers_requestBlockByHeight env (peers w) pid height) \<noteq> None \<longrightarrow>
      BlockRequest env pid height w evs =
        Returns (None, Some errReqBlock) (snd (blockRequest env pid height w)) evs) \<and>
   (BlockRequest env pid height w pre = Blocked w' \<longrightarrow>
      (fst (peers_requestBlockByHeight env (peers w') pid height) \<noteq> None \<longrightarrow>
         BlockRequest env pid height w (pre @ RetryTick # evs) =
           Returns (None, Some errReqBlock) (snd (blockRequest env pid height w')) evs) \<and>
      BlockRequest env pid height w (pre @ SyncWait # evs) =
        Returns (None, Some errGetBlockTimeout) w' evs \<and>
      BlockRequest env pid height w (pre @ QuitReq (Some pid) # evs) =
        Returns (None, Some errPeerDropped) w' evs \<and>
      (other \<noteq> pid \<longrightarrow>
         BlockRequest env pid height w (pre @ [QuitReq (Some other)]) = Blocked w' \<and>
         BlockRequest env pid height w (pre @ QuitReq (Some other) # evs) =
           BlockRequest env pid height w (pre @ evs)))"
proof (intro conjI impI)
  assume "fst (peers_requestBlockByHeight env (peers w) pid height) \<noteq> None"
  then show "BlockRequest env pid height w evs =
      Returns (None, Some errReqBlock) (snd (blockRequest env pid height w)) evs"
    by (simp add: BlockRequest_unfold blockRequest_fst)
next
  assume pre: "BlockRequest env pid height w pre = Blocked w'"
    and "fst (peers_requestBlockByHeight env (peers w') pid height) \<noteq> None"
  then show "BlockRequest env pid height w (pre @ RetryTick # evs) =
      Returns (None, Some errReqBlock) (snd (blockRequest env pid height w')) evs"
    by (simp add: BlockRequest_append [OF pre] BlockRequest_wait_RetryTick blockRequest_fst
        del: BlockRequest_wait.simps)
next
  assume pre: "BlockRequest env pid height w pre = Blocked w'"
  show "BlockRequest env pid height w (pre @ SyncWait # evs) =
      Returns (None, Some errGetBlockTimeout) w' evs"
    by (simp add: BlockRequest_append [OF pre])
  show "BlockRequest env pid height w (pre @ QuitReq (Some pid) # evs) =
      Returns (None, Some errPeerDropped) w' evs"
    by (simp add: BlockRequest_append [OF pre])
  assume "other \<noteq> pid"
  then show "BlockRequest env pid height w (pre @ [QuitReq (Some other)]) = Blocked w'"
    and "BlockRequest env pid height w (pre @ QuitReq (Some other) # evs) =
      BlockRequest env pid height w (pre @ evs)"
    by (simp_all add: BlockRequest_append [OF pre])
qed

theorem BlockRequest_failures_witness:
  "BlockRequest collaborators ''peer'' 11 (start_world 10 []) [SyncWait] =
     Returns (None, Some errReqBlock)
       \<lparr>chain = chain_at 10, peers = [], calls = [RequestBlockByHeight ''peer'' 11]\<rparr>
       [SyncWait] \<and>
   BlockRequest flaky ''peer'' 11 (start_world 10 [(''peer'', 13)])
       [response ''peer'' (block_at 12), RetryTick, SyncWait] =
     Returns (None, Some errReqBlock)
       \<lparr>chain = chain_at 10, peers = [],
        calls = [RequestBlockByHeight ''peer'' 11, RequestBlockByHeight ''peer'' 11]\<rparr>
       [SyncWait] \<and>
   BlockRequest collaborators ''peer'' 11 (start_world 10 [(''peer'', 13)])
       [response ''peer'' (block_at 12), RetryTick, SyncWait, response ''peer'' (block_at 11)] =
     Returns (None, Some errGetBlockTimeout)
       \<lparr>chain = chain_at 10, peers = [(''peer'', 13)],
        calls = [RequestBlockByHeight ''peer'' 11, RequestBlockByHeight ''peer'' 11]\<rparr>
       [response ''peer'' (block_at 11)] \<and>
   BlockRequest collaborators ''peer'' 11 (start_world 10 [(''peer'', 13)])
       [response ''peer'' (block_at 12), RetryTick, QuitReq (Some ''peer''),
        response ''peer'' (block_at 11)] =
     Returns (None, Some errPeerDropped)
       \<lparr>chain = chain_at 10, peers = [(''peer'', 13)],
        calls = [RequestBlockByHeight ''peer'' 11, RequestBlockByHeight ''peer'' 11]\<rparr>
       [response ''peer'' (block_at 11)] \<and>
   BlockRequest collaborators ''peer'' 11 (start_world 10 [(''peer'', 13)])
       [response ''peer'' (block_at 12), RetryTick, QuitReq (Some ''other''),
        response ''peer'' (block_at 11)] =
     Returns (Some (block_at 11), None)
       \<lparr>chain = chain_at 10, peers = [(''peer'', 13)],
        calls = [RequestBlockByHeight ''peer'' 11, RequestBlockByHeight ''peer'' 11]\<rparr> []"
  using
    BlockRequest_failures [of collaborators "start_world 10 []" "''peer''" 11 "[SyncWait]"
      "[]" "start_world 10 []" "''other''"]
    BlockRequest_failures [of flaky "start_world 10 [(''peer'', 13)]" "''peer''" 11
      "[SyncWait]" "[response ''peer'' (block_at 12)]"
      "\<lparr>chain = chain_at 10, peers = [],
        calls = [RequestBlockByHeight ''peer'' 11]\<rparr>" "''other''"]
    BlockRequest_failures [of collaborators "start_world 10 [(''peer'', 13)]" "''peer''" 11
      "[response ''peer'' (block_at 11)]" "[response ''peer'' (block_at 12), RetryTick]"
      "\<lparr>chain = chain_at 10, peers = [(''peer'', 13)],
        calls = [RequestBlockByHeight ''peer'' 11, RequestBlockByHeight ''peer'' 11]\<rparr>"
      "''other''"]
  by (simp add: scenario_defs flaky_def BlockRequest_def)

section \<open>BlockRequestWorker\<close>

text \<open>
  C5. In any pass of the loop (\<open>num \<le> maxPeerHeight\<close>), when \<open>BlockRequest\<close> returns an
  error, which is one of \<open>errReqBlock\<close>, \<open>errGetBlockTimeout\<close> and \<open>errPeerDropped\<close>,
  the driver drops the peer from the registry and returns \<open>errCommAbnorm\<close> at once. In
  that pass the chain is not touched: the calls of the pass are the requests for the
  block and the \<open>DropPeer\<close>, and \<open>ProcessBlock\<close> is not among them.
\<close>

theorem failed_fetch_ends_the_driver:
  assumes "num \<le> maxPeerHeight"
    and "BlockRequest env pid num w evs = Returns (blk, Some e) w1 evs1"
  shows "(e = errReqBlock \<or> e = errGetBlockTimeout \<or> e = errPeerDropped) \<and>
         BlockRequestWorker_loop env pid maxPeerHeight num w evs =
           Returns (Some errCommAbnorm)
             (w1\<lparr>peers := peers_DropPeer env (peers w1) pid,
                 calls := calls w1 @ [DropPeer pid]\<rparr>) evs1 \<and>
         chain (world_of (BlockRequestWorker_loop env pid maxPeerHeight num w evs)) = chain w \<and>
         (\<exists>k. calls (world_of (BlockRequestWorker_loop env pid maxPeerHeight num w evs)) =
            calls w @ replicate (Suc k) (RequestBlockByHeight pid num) @ [DropPeer pid])"
proof -
  from BlockRequest_result [OF assms(2)]
  have e: "e = errReqBlock \<or> e = errGetBlockTimeout \<or> e = errPeerDropped" by auto
  from BlockRequestWorker_loop_Return [OF assms(1) BlockRequestWorker_body_failed [OF assms(2)]]
  have loop: "BlockRequestWorker_loop env pid maxPeerHeight num w evs =
           Returns (Some errCommAbnorm)
             (w1\<lparr>peers := peers_DropPeer env (peers w1) pid,
                 calls := calls w1 @ [DropPeer pid]\<rparr>) evs1" .
  from BlockRequest_effect [of env pid num w evs] assms(2) obtain k where
    "chain w1 = chain w"
    and "calls w1 = calls w @ replicate (Suc k) (RequestBlockByHeight pid num)"
    by auto
  with loop have
    "chain (world_of (BlockRequestWorker_loop env pid maxPeerHeight num w evs)) = chain w"
    and "calls (world_of (BlockRequestWorker_loop env pid maxPeerHeight num w evs)) =
            calls w @ replicate (Suc k) (RequestBlockByHeight pid num) @ [DropPeer pid]"
    by simp_all
  with e loop show ?thesis by blast
qed

theorem failed_fetch_ends_the_driver_witness:
  "BlockRequestWorker collaborators ''peer'' 12 (start_world 10 [(''peer'', 12)])
       [response ''peer'' (block_at 12), SyncWait] =
     Returns (Some errCommAbnorm)
       \<lparr>chain = chain_at 10, peers = [],
        calls = [RequestBlockByHeight ''peer'' 11, DropPeer ''peer'']\<rparr> [] \<and>
   stub_Height (chain_at 10) = 10 \<and>
   BlockRequestWorker collaborators ''peer'' 12 (start_world 10 []) [] =
     Returns (Some errCommAbnorm)
       \<lparr>chain = chain_at 10, peers = [],
        calls = [RequestBlockByHeight ''peer'' 11, DropPeer ''peer'']\<rparr> []"
  using
    failed_fetch_ends_the_driver [of 11 12 collaborators "''peer''"
      "start_world 10 [(''peer'', 12)]" "[response ''peer'' (block_at 12), SyncWait]"
      None errGetBlockTimeout
      "\<lparr>chain = chain_at 10, peers = [(''peer'', 12)],
        calls = [RequestBlockByHeight ''peer'' 11]\<rparr>" "[]"]
    failed_fetch_ends_the_driver [of 11 12 collaborators "''peer''"
      "start_world 10 []" "[]" None errReqBlock
      "\<lparr>chain = chain_at 10, peers = [],
        calls = [RequestBlockByHeight ''peer'' 11]\<rparr>" "[]"]
  by (simp add: scenario_defs BlockRequest_def BlockRequestWorker_def)



text \<open>
  C8. A loop whose cursor exceeds \<open>maxPeerHeight\<close> returns nil at once, in the state it
  is in and without another request. When every \<open>BlockRequest\<close> and every
  \<open>ProcessBlock\<close> of the run succeed without an orphan classification, the driver
  returns nil, and if it has made a pass at all, the height of the chain plus one then
  exceeds \<open>maxPeerHeight\<close>. In particular: the chain is at height 10, \<open>maxPeerHeight\<close> is 13 and the
  peer serves the blocks 11, 12 and 13 in order; the driver returns nil, the chain has
  applied the three blocks and its height is 13.
\<close>

theorem driver_returns_nil_when_all_succeed:
  "(\<not> num \<le> maxPeerHeight \<longrightarrow>
      BlockRequestWorker_loop env pid maxPeerHeight num w evs = Returns None w evs) \<and>
   (all_fetches_succeed env pid maxPeerHeight num w evs \<longrightarrow>
      (\<exists>w' evs'.
         BlockRequestWorker_loop env pid maxPeerHeight num w evs = Returns None w' evs' \<and>
         (num \<le> maxPeerHeight \<longrightarrow>
            \<not> chain_Height env (chain w') + 1 \<le> maxPeerHeight))) \<and>
   (all_fetches_succeed env pid maxPeerHeight (chain_Height env (chain w) + 1) w evs \<longrightarrow>
      (\<exists>w' evs'.
         BlockRequestWorker env pid maxPeerHeight w evs = Returns None w' evs' \<and>
         (chain_Height env (chain w) + 1 \<le> maxPeerHeight \<longrightarrow>
            \<not> chain_Height env (chain w') + 1 \<le> maxPeerHeight))) \<and>
   BlockRequestWorker collaborators ''peer'' 13 (start_world 10 [(''peer'', 13)])
       [response ''peer'' (block_at 11), response ''peer'' (block_at 12),
        response ''peer'' (block_at 13)] =
     Returns None
       \<lparr>chain = \<lparr>applied = [block_at 13, block_at 12, block_at 11, block_at 10],
                 orphan_txs = [], invalid_txs = []\<rparr>,
        peers = [(''peer'', 13)],
        calls = [RequestBlockByHeight ''peer'' 11, ProcessBlock (Some (block_at 11)),
                 RequestBlockByHeight ''peer'' 12, ProcessBlock (Some (block_at 12)),
                 RequestBlockByHeight ''peer'' 13, ProcessBlock (Some (block_at 13))]\<rparr> [] \<and>
   stub_Height \<lparr>applied = [block_at 13, block_at 12, block_at 11, block_at 10],
                orphan_txs = [], invalid_txs = []\<rparr> = 13"
proof (intro conjI impI)
  assume "\<not> num \<le> maxPeerHeight"
  then show "BlockRequestWorker_loop env pid maxPeerHeight num w evs = Returns None w evs"
    by (rule BlockRequestWorker_loop_exit)
next
  assume "all_fetches_succeed env pid maxPeerHeight num w evs"
  then show "\<exists>w' evs'.
         BlockRequestWorker_loop env pid maxPeerHeight num w evs = Returns None w' evs' \<and>
         (num \<le> maxPeerHeight \<longrightarrow>
            \<not> chain_Height env (chain w') + 1 \<le> maxPeerHeight)"
    by (rule all_fetches_succeed_caught_up)
next
  assume "all_fetches_succeed env pid maxPeerHeight (chain_Height env (chain w) + 1) w evs"
  then show "\<exists>w' evs'.
         BlockRequestWorker env pid maxPeerHeight w evs = Returns None w' evs' \<and>
         (chain_Height env (chain w) + 1 \<le> maxPeerHeight \<longrightarrow>
            \<not> chain_Height env (chain w') + 1 \<le> maxPeerHeight)"
    unfolding BlockRequestWorker_def Let_def by (rule all_fetches_succeed_caught_up)
next
  show "BlockRequestWorker collaborators ''peer'' 13 (start_world 10 [(''peer'', 13)])
       [response ''peer'' (block_at 11), response ''peer'' (block_at 12),
        response ''peer'' (block_at 13)] =
     Returns None
       \<lparr>chain = \<lparr>applied = [block_at 13, block_at 12, block_at 11, block_at 10],
                 orphan_txs = [], invalid_txs = []\<rparr>,
        peers = [(''peer'', 13)],
        calls = [RequestBlockByHeight ''peer'' 11, ProcessBlock (Some (block_at 11)),
                 RequestBlockByHeight ''peer'' 12, ProcessBlock (Some (block_at 12)),
                 RequestBlockByHeight ''peer'' 13, ProcessBlock (Some (block_at 13))]\<rparr> []"
    by (simp add: run_defs)
next
  show "stub_Height \<lparr>applied = [block_at 13, block_at 12, block_at 11, block_at 10],
                orphan_txs = [], invalid_txs = []\<rparr> = 13"
    by (simp add: scenario_defs)
qed

theorem driver_returns_nil_when_all_succeed_witness:
  "all_fetches_succeed collaborators ''peer'' 12 11 (start_world 10 [(''peer'', 12)])
       [response ''peer'' (block_at 11), response ''other'' (block_at 11),
        response ''peer'' (block_at 12), SyncWait] \<and>
   (\<exists>w' evs'. BlockRequestWorker collaborators ''peer'' 12 (start_world 10 [(''peer'', 12)])
       [response ''peer'' (block_at 11), response ''other'' (block_at 11),
        response ''peer'' (block_at 12), SyncWait] = Returns None w' evs' \<and>
      \<not> stub_Height (chain w') + 1 \<le> 12) \<and>
   BlockRequestWorker_loop collaborators ''peer'' 12 13 (start_world 10 [(''peer'', 12)])
       [SyncWait] = Returns None (start_world 10 [(''peer'', 12)]) [SyncWait]"
  using
    driver_returns_nil_when_all_succeed [of 13 12 collaborators "''peer''"
      "start_world 10 [(''peer'', 12)]" "[SyncWait]"]
    driver_returns_nil_when_all_succeed [of 11 12 collaborators "''peer''"
      "start_world 10 [(''peer'', 12)]"
      "[response ''peer'' (block_at 11), response ''other'' (block_at 11),
        response ''peer'' (block_at 12), SyncWait]"]
  by (auto simp: all_fetches_succeed.simps BlockRequest_def scenario_defs)

text \<open>
  C9. \<open>BlockRequest\<close> returns either a nil error with a block that is not nil and has
  the height asked for, or a nil block with one of \<open>errReqBlock\<close>,
  \<open>errGetBlockTimeout\<close> and \<open>errPeerDropped\<close>. A pass of the loop calls \<open>ProcessBlock\<close>
  only when the \<open>BlockRequest\<close> of that pass returned a nil error, and with the block it
  returned. So in a whole run of the driver, whatever its outcome, no call of
  \<open>ProcessBlock\<close> gets a nil block.
\<close>

theorem ProcessBlock_gets_the_fetched_block:
  "(BlockRequest env pid height w evs = Returns (blk, err) w' evs' \<longrightarrow>
      (err = None \<and> (\<exists>b. blk = Some b \<and> Height b = height)) \<or>
      (blk = None \<and> (err = Some errReqBlock \<or> err = Some errGetBlockTimeout
         \<or> err = Some errPeerDropped))) \<and>
   (ProcessBlock x \<in> set (drop (length (calls w))
        (calls (world_of (BlockRequestWorker_body env pid num w evs)))) \<longrightarrow>
      (\<exists>b w1 evs1. BlockRequest env pid num w evs = Returns (Some b, None) w1 evs1 \<and>
         x = Some b)) \<and>
   (\<exists>new. calls (world_of (BlockRequestWorker env pid maxPeerHeight w evs)) = calls w @ new \<and>
      (\<forall>y. ProcessBlock y \<in> set new \<longrightarrow> y \<noteq> None))"
proof (intro conjI impI)
  assume "BlockRequest env pid height w evs = Returns (blk, err) w' evs'"
  then show "(err = None \<and> (\<exists>b. blk = Some b \<and> Height b = height)) \<or>
      (blk = None \<and> (err = Some errReqBlock \<or> err = Some errGetBlockTimeout
         \<or> err = Some errPeerDropped))"
    by (rule BlockRequest_result)
next
  assume called: "ProcessBlock x \<in> set (drop (length (calls w))
        (calls (world_of (BlockRequestWorker_body env pid num w evs))))"
  from BlockRequestWorker_body_calls [of env pid num w evs] obtain k rest where
    shape: "calls (world_of (BlockRequestWorker_body env pid num w evs)) =
       calls w @ replicate (Suc k) (RequestBlockByHeight pid num) @ rest"
    and rest: "rest = [] \<or> rest = [DropPeer pid] \<or>
      (\<exists>b w1 evs1. BlockRequest env pid num w evs = Returns (Some b, None) w1 evs1 \<and>
         (rest = [ProcessBlock (Some b)] \<or>
          rest = [ProcessBlock (Some b), AddScamPeer (peers_getPeer env (peers w1) pid)]))"
    by blast
  from called shape have "ProcessBlock x \<in> set rest"
    by auto
  with rest show "\<exists>b w1 evs1. BlockRequest env pid num w evs = Returns (Some b, None) w1 evs1 \<and>
         x = Some b"
    by auto
next
  show "\<exists>new. calls (world_of (BlockRequestWorker env pid maxPeerHeight w evs)) = calls w @ new \<and>
      (\<forall>y. ProcessBlock y \<in> set new \<longrightarrow> y \<noteq> None)"
    unfolding BlockRequestWorker_def Let_def by (rule BlockRequestWorker_loop_calls)
qed

theorem ProcessBlock_gets_the_fetched_block_witness:
  "BlockRequest collaborators ''peer'' 11 (start_world 10 [(''peer'', 12)])
       [response ''peer'' (block_at 11)] =
     Returns (Some (block_at 11), None)
       \<lparr>chain = chain_at 10, peers = [(''peer'', 12)],
        calls = [RequestBlockByHeight ''peer'' 11]\<rparr> [] \<and>
   Height (block_at 11) = 11 \<and>
   ProcessBlock (Some (block_at 11)) \<in> set (drop (length (calls (start_world 10 [(''peer'', 12)])))
      (calls (world_of (BlockRequestWorker_body collaborators ''peer'' 11
         (start_world 10 [(''peer'', 12)]) [response ''peer'' (block_at 11)])))) \<and>
   BlockRequest collaborators ''peer'' 11 (start_world 10 [(''peer'', 12)]) [SyncWait] =
     Returns (None, Some errGetBlockTimeout)
       \<lparr>chain = chain_at 10, peers = [(''peer'', 12)],
        calls = [RequestBlockByHeight ''peer'' 11]\<rparr> []"
  using
    ProcessBlock_gets_the_fetched_block [of collaborators "''peer''" 11
      "start_world 10 [(''peer'', 12)]" "[response ''peer'' (block_at 11)]"
      "Some (block_at 11)" None
      "\<lparr>chain = chain_at 10, peers = [(''peer'', 12)],
        calls = [RequestBlockByHeight ''peer'' 11]\<rparr>" "[]"
      "Some (block_at 11)" 11 12]
    ProcessBlock_gets_the_fetched_block [of collaborators "''peer''" 11
      "start_world 10 [(''peer'', 12)]" "[SyncWait]"
      None "Some errGetBlockTimeout"
      "\<lparr>chain = chain_at 10, peers = [(''peer'', 12)],
        calls = [RequestBlockByHeight ''peer'' 11]\<rparr>" "[]"
      None 11 12]
  by (simp add: BlockRequestWorker_body_def BlockRequest_def Root_def scenario_defs)

text \<open>
  C10, as amended. The cursor is at height 0, the block fetched at height 0 is classified
  as an orphan, and \<open>maxPeerHeight\<close> is less than \<open>2^64 - 1\<close>. Then the decrement wraps
  around to 18446744073709551615, the condition of the loop fails and the driver returns
  nil; the pass has called \<open>ProcessBlock\<close> and nothing else after the request. A run of the
  driver that returns nil has called neither \<open>DropPeer\<close> nor \<open>AddScamPeer\<close>.

  The claim as stated has no bound on \<open>maxPeerHeight\<close>. With \<open>maxPeerHeight = 2^64 - 1\<close>
  the condition of the loop holds after the wrap-around: the driver requests the block of
  height 18446744073709551615, and when that request times out it evicts the peer and
  returns \<open>errCommAbnorm\<close>.
\<close>

theorem orphan_at_height_zero_returns_nil:
  assumes "maxPeerHeight \<noteq> 18446744073709551615"
    and "BlockRequest env pid 0 w evs = Returns (Some b, None) w1 evs1"
    and "chain_ProcessBlock env (chain w1) (Some b) = ((True, None), c')"
  shows "BlockRequestWorker_body env pid 0 w evs =
           Returns (Next 18446744073709551615)
             (w1\<lparr>chain := c', calls := calls w1 @ [ProcessBlock (Some b)]\<rparr>) evs1 \<and>
         \<not> (18446744073709551615 :: u64) \<le> maxPeerHeight \<and>
         BlockRequestWorker_loop env pid maxPeerHeight 0 w evs =
           Returns None (w1\<lparr>chain := c', calls := calls w1 @ [ProcessBlock (Some b)]\<rparr>) evs1 \<and>
         (\<forall>w0 evs0 w' evs'.
            BlockRequestWorker env pid maxPeerHeight w0 evs0 = Returns None w' evs' \<longrightarrow>
            (\<exists>new. calls w' = calls w0 @ new \<and> list_all quiet new))"
proof -
  let ?w2 = "w1\<lparr>chain := c', calls := calls w1 @ [ProcessBlock (Some b)]\<rparr>"
  from BlockRequestWorker_body_processed [OF assms(2,3)]
  have body: "BlockRequestWorker_body env pid 0 w evs = Returns (Next (0 - 1)) ?w2 evs1"
    by simp
  have wrap: "(0::u64) - 1 = 18446744073709551615" by simp
  have "(18446744073709551615 :: u64) = - 1" by simp
  with assms(1) have above: "\<not> (18446744073709551615 :: u64) \<le> maxPeerHeight"
    by (metis word_order.extremum_unique)
  have "BlockRequestWorker_loop env pid maxPeerHeight 0 w evs =
      BlockRequestWorker_loop env pid maxPeerHeight (0 - 1) ?w2 evs1"
    by (rule BlockRequestWorker_loop_Next [OF _ body]) simp
  also have "\<dots> = Returns None ?w2 evs1"
    unfolding wrap by (rule BlockRequestWorker_loop_exit [OF above])
  finally have loop: "BlockRequestWorker_loop env pid maxPeerHeight 0 w evs = Returns None ?w2 evs1" .
  have quiet: "\<exists>new. calls w' = calls w0 @ new \<and> list_all quiet new"
    if "BlockRequestWorker env pid maxPeerHeight w0 evs0 = Returns None w' evs'"
    for w0 evs0 w' evs'
    using that unfolding BlockRequestWorker_def Let_def
    by (rule BlockRequestWorker_loop_nil_quiet)
  from body wrap above loop quiet show ?thesis by (simp only: simp_thms) blast
qed

theorem orphan_at_height_zero_returns_nil_witness:
  "BlockRequestWorker collaborators ''peer'' 5 (start_world 0 [(''peer'', 5)])
       [response ''peer'' (foreign_block_at 1), response ''peer'' (foreign_block_at 0)] =
     Returns None
       \<lparr>chain = chain_at 0, peers = [(''peer'', 5)],
        calls = [RequestBlockByHeight ''peer'' 1, ProcessBlock (Some (foreign_block_at 1)),
                 RequestBlockByHeight ''peer'' 0, ProcessBlock (Some (foreign_block_at 0))]\<rparr> []"
proof -
  let ?w1 = "\<lparr>chain = chain_at 0, peers = [(''peer'', 5)],
        calls = [RequestBlockByHeight ''peer'' 1, ProcessBlock (Some (foreign_block_at 1))]\<rparr>"
  have first: "BlockRequestWorker collaborators ''peer'' 5 (start_world 0 [(''peer'', 5)])
       [response ''peer'' (foreign_block_at 1), response ''peer'' (foreign_block_at 0)] =
     BlockRequestWorker_loop collaborators ''peer'' 5 0 ?w1
       [response ''peer'' (foreign_block_at 0)]"
    unfolding BlockRequestWorker_def Let_def
    by (subst BlockRequestWorker_loop.simps)
      (simp add: BlockRequestWorker_body_def BlockRequest_def Root_def scenario_defs)
  from orphan_at_height_zero_returns_nil [of 5 collaborators "''peer''" ?w1
      "[response ''peer'' (foreign_block_at 0)]" "foreign_block_at 0"
      "\<lparr>chain = chain_at 0, peers = [(''peer'', 5)],
        calls = [RequestBlockByHeight ''peer'' 1, ProcessBlock (Some (foreign_block_at 1)),
                 RequestBlockByHeight ''peer'' 0]\<rparr>" "[]" "chain_at 0"]
  have "BlockRequestWorker_loop collaborators ''peer'' 5 0 ?w1
       [response ''peer'' (foreign_block_at 0)] =
     Returns None
       \<lparr>chain = chain_at 0, peers = [(''peer'', 5)],
        calls = [RequestBlockByHeight ''peer'' 1, ProcessBlock (Some (foreign_block_at 1)),
                 RequestBlockByHeight ''peer'' 0, ProcessBlock (Some (foreign_block_at 0))]\<rparr> []"
    by (simp add: BlockRequest_def scenario_defs)
  with first show ?thesis by simp
qed

theorem orphan_at_height_zero_counterexample:
  "BlockRequestWorker collaborators ''peer'' 18446744073709551615
       (start_world 0 [(''peer'', 18446744073709551615)])
       [response ''peer'' (foreign_block_at 1), response ''peer'' (foreign_block_at 0),
        SyncWait] =
     Returns (Some errCommAbnorm)
       \<lparr>chain = chain_at 0, peers = [],
        calls = [RequestBlockByHeight ''peer'' 1, ProcessBlock (Some (foreign_block_at 1)),
                 RequestBlockByHeight ''peer'' 0, ProcessBlock (Some (foreign_block_at 0)),
                 RequestBlockByHeight ''peer'' 18446744073709551615,
                 DropPeer ''peer'']\<rparr> []"
  by (simp add: run_defs max_u64)

text \<open>
  C2, as amended. In a pass whose \<open>ProcessBlock\<close> returns no error, the cursor of the
  next pass is, when the block is no orphan, the height of the chain plus one, the height
  being read from the chain after the call (line 114), and, when the block is an orphan,
  \<open>num - 1\<close> in unsigned 64-bit arithmetic (line 111), which is exactly one less than
  \<open>num\<close> for every cursor other than 0.

  The claim as stated has no exception for the cursor 0. The chain is at height 0 and the
  peer is on another chain: its block 1 is an orphan, so the driver requests height 0;
  its block 0 is an orphan too, and the pass at cursor 0 ends with the cursor
  18446744073709551615, which is not one less than 0.
\<close>

theorem cursor_after_ProcessBlock:
  assumes "BlockRequest env pid num w evs = Returns (Some b, None) w1 evs1"
    and "chain_ProcessBlock env (chain w1) (Some b) = ((isOrphan, None), c')"
  shows "BlockRequestWorker_body env pid num w evs =
           Returns (Next (if isOrphan then num - 1 else chain_Height env c' + 1))
             (w1\<lparr>chain := c', calls := calls w1 @ [ProcessBlock (Some b)]\<rparr>) evs1 \<and>
         (num \<le> maxPeerHeight \<longrightarrow>
            BlockRequestWorker_loop env pid maxPeerHeight num w evs =
              BlockRequestWorker_loop env pid maxPeerHeight
                (if isOrphan then num - 1 else chain_Height env c' + 1)
                (w1\<lparr>chain := c', calls := calls w1 @ [ProcessBlock (Some b)]\<rparr>) evs1) \<and>
         (isOrphan \<and> num \<noteq> 0 \<longrightarrow> decreased_by_one num (num - 1))"
  using BlockRequestWorker_body_processed [OF assms]
  by (auto simp: BlockRequestWorker_loop_Next decreased_by_one_minus_1)

theorem cursor_after_ProcessBlock_witness:
  "BlockRequestWorker_body collaborators ''peer'' 11 (start_world 10 [(''peer'', 12)])
       [response ''peer'' (foreign_block_at 11)] =
     Returns (Next 10)
       \<lparr>chain = chain_at 10, peers = [(''peer'', 12)],
        calls = [RequestBlockByHeight ''peer'' 11, ProcessBlock (Some (foreign_block_at 11))]\<rparr>
       [] \<and>
   decreased_by_one 11 10 \<and>
   BlockRequestWorker_body collaborators ''peer'' 9
       \<lparr>chain = chain_10_9, peers = [(''peer'', 12)], calls = []\<rparr>
       [response ''peer'' (block_at 9)] =
     Returns (Next 11)
       \<lparr>chain = chain_10_9, peers = [(''peer'', 12)],
        calls = [RequestBlockByHeight ''peer'' 9, ProcessBlock (Some (block_at 9))]\<rparr> [] \<and>
   BlockRequestWorker_loop collaborators ''peer'' 12 9
       \<lparr>chain = chain_10_9, peers = [(''peer'', 12)], calls = []\<rparr>
       [response ''peer'' (block_at 9)] =
     BlockRequestWorker_loop collaborators ''peer'' 12 11
       \<lparr>chain = chain_10_9, peers = [(''peer'', 12)],
        calls = [RequestBlockByHeight ''peer'' 9, ProcessBlock (Some (block_at 9))]\<rparr> []"
  using
    cursor_after_ProcessBlock [of collaborators "''peer''" 11 "start_world 10 [(''peer'', 12)]"
      "[response ''peer'' (foreign_block_at 11)]" "foreign_block_at 11"
      "\<lparr>chain = chain_at 10, peers = [(''peer'', 12)],
        calls = [RequestBlockByHeight ''peer'' 11]\<rparr>" "[]" True "chain_at 10" 12]
    cursor_after_ProcessBlock [of collaborators "''peer''" 9
      "\<lparr>chain = chain_10_9, peers = [(''peer'', 12)], calls = []\<rparr>"
      "[response ''peer'' (block_at 9)]" "block_at 9"
      "\<lparr>chain = chain_10_9, peers = [(''peer'', 12)],
        calls = [RequestBlockByHeight ''peer'' 9]\<rparr>" "[]" False chain_10_9 12]
  by (simp add: BlockRequest_def chain_10_9_def scenario_defs)

theorem orphan_at_cursor_zero_counterexample:
  "BlockRequestWorker collaborators ''peer'' 5 (start_world 0 [(''peer'', 5)])
       [response ''peer'' (foreign_block_at 1)] =
     Blocked
       \<lparr>chain = chain_at 0, peers = [(''peer'', 5)],
        calls = [RequestBlockByHeight ''peer'' 1, ProcessBlock (Some (foreign_block_at 1)),
                 RequestBlockByHeight ''peer'' 0]\<rparr> \<and>
   BlockRequestWorker_body collaborators ''peer'' 0
       \<lparr>chain = chain_at 0, peers = [(''peer'', 5)],
        calls = [RequestBlockByHeight ''peer'' 1, ProcessBlock (Some (foreign_block_at 1))]\<rparr>
       [response ''peer'' (foreign_block_at 0)] =
     Returns (Next 18446744073709551615)
       \<lparr>chain = chain_at 0, peers = [(''peer'', 5)],
        calls = [RequestBlockByHeight ''peer'' 1, ProcessBlock (Some (foreign_block_at 1)),
                 RequestBlockByHeight ''peer'' 0, ProcessBlock (Some (foreign_block_at 0))]\<rparr> [] \<and>
   \<not> decreased_by_one 0 18446744073709551615"
  by (simp add: run_defs max_u64 decreased_by_one_def)

section \<open>txsProcessWorker\<close>

text \<open>
  C7. For a notification that carries a transaction, the worker calls
  \<open>MarkTransaction\<close> for the origin peer, then \<open>ValidateTx\<close>, then \<open>AddScamPeer\<close> for
  the origin peer exactly when \<open>ValidateTx\<close> returned an error and no orphan
  classification, and goes on with the rest of the queue whatever the outcome was. So
  on a queue of notifications that carry transactions the worker validates every one of
  them, in order, and it returns exactly when the queue is closed: on a queue that is
  not closed it waits.
\<close>

theorem txsProcessWorker_marks_validates_penalizes:
  "(tx n = Some t \<and> chain_ValidateTx env (chain w) t = ((isOrphan, err), c') \<longrightarrow>
      txsProcessWorker env w (n # rest) closed =
        txsProcessWorker env
          (w\<lparr>peers := peers_MarkTransaction env (peers w) (txPeerID n) (ID t),
             chain := c',
             calls := calls w @ [MarkTransaction (txPeerID n) (ID t), ValidateTx t] @
               (if err \<noteq> None \<and> \<not> isOrphan
                then [AddScamPeer (peers_getPeer env
                        (peers_MarkTransaction env (peers w) (txPeerID n) (ID t)) (txPeerID n))]
                else [])\<rparr>) rest closed) \<and>
   ((\<forall>n\<in>set ns. tx n \<noteq> None) \<longrightarrow>
      (\<exists>w'. txsProcessWorker env w ns closed =
              (if closed then Returns () w' [] else Blocked w') \<and>
            validated (calls w') = validated (calls w) @ map (\<lambda>n. the (tx n)) ns))"
  using txsProcessWorker_step [of n t env w isOrphan err c' rest closed]
    txsProcessWorker_all [of ns env w closed]
  by blast

theorem txsProcessWorker_marks_validates_penalizes_witness:
  "txsProcessWorker collaborators tx_world
       [notify ''a'' 1, notify ''b'' 2, notify ''c'' 3] True =
     Returns ()
       (tx_world\<lparr>calls :=
          [MarkTransaction ''a'' 1, ValidateTx \<lparr>ID = 1\<rparr>,
           MarkTransaction ''b'' 2, ValidateTx \<lparr>ID = 2\<rparr>,
           MarkTransaction ''c'' 3, ValidateTx \<lparr>ID = 3\<rparr>, AddScamPeer ''c'']\<rparr>) [] \<and>
   txsProcessWorker collaborators tx_world [notify ''c'' 3] False =
     Blocked
       (tx_world\<lparr>calls :=
          [MarkTransaction ''c'' 3, ValidateTx \<lparr>ID = 3\<rparr>, AddScamPeer ''c'']\<rparr>)"
proof -
  have nonnil: "\<forall>n\<in>set [notify ''a'' 1, notify ''b'' 2, notify ''c'' 3].
      tx n \<noteq> None"
    by (simp add: notify_def)
  have v: "tx (notify ''c'' 3) = Some \<lparr>ID = 3\<rparr> \<and>
      chain_ValidateTx collaborators (chain tx_world) \<lparr>ID = 3\<rparr> =
        ((False, Some (Collab ''invalid transaction'')), chain tx_world)"
    by (simp add: tx_world_def notify_def scenario_defs)
  note inst = txsProcessWorker_marks_validates_penalizes [of "notify ''c'' 3" "\<lparr>ID = 3\<rparr>"
      collaborators tx_world False "Some (Collab ''invalid transaction'')"
      "chain tx_world" "[]" _ "[notify ''a'' 1, notify ''b'' 2, notify ''c'' 3]"]
  from inst [of True, THEN conjunct2, THEN mp, OF nonnil] obtain w' where
    "txsProcessWorker collaborators tx_world
       [notify ''a'' 1, notify ''b'' 2, notify ''c'' 3] True = Returns () w' []"
    by auto
  then have "txsProcessWorker collaborators tx_world
       [notify ''a'' 1, notify ''b'' 2, notify ''c'' 3] True =
     Returns ()
       (tx_world\<lparr>calls :=
          [MarkTransaction ''a'' 1, ValidateTx \<lparr>ID = 1\<rparr>,
           MarkTransaction ''b'' 2, ValidateTx \<lparr>ID = 2\<rparr>,
           MarkTransaction ''c'' 3, ValidateTx \<lparr>ID = 3\<rparr>, AddScamPeer ''c'']\<rparr>) []"
    by (simp add: tx_world_def notify_def scenario_defs)
  moreover from inst [of False, THEN conjunct1, THEN mp, OF v]
  have "txsProcessWorker collaborators tx_world [notify ''c'' 3] False =
     Blocked
       (tx_world\<lparr>calls :=
          [MarkTransaction ''c'' 3, ValidateTx \<lparr>ID = 3\<rparr>, AddScamPeer ''c'']\<rparr>)"
    by (simp add: tx_world_def notify_def scenario_defs)
  ultimately show ?thesis by simp
qed

end
